theory Spec2Isabelle
  imports Complex_Main "HOL-Library.AList"
begin

section \<open>JavaScript values and objects\<close>

text \<open>
  The values the record generators handle. A JavaScript number is modelled as a
  rational (\<open>VNum\<close>) or as \<open>VNaN\<close>: the arithmetic of the model is exact, so a
  statement about a product is a statement up to the rounding of IEEE doubles.
  A plain object is a list of key/value pairs in insertion order, with no key twice.
\<close>

datatype jsvalue =
    VUndefined
  | VNull
  | VBool bool
  | VNum rat
  | VNaN
  | VStr string
  | VArr "jsvalue list"
  | VObj "(string \<times> jsvalue) list"

type_synonym obj = "(string \<times> jsvalue) list"

text \<open>\<open>o.k\<close>: the value stored under \<open>k\<close>, \<open>undefined\<close> when the key is absent.\<close>

definition get_prop :: "obj \<Rightarrow> string \<Rightarrow> jsvalue" where
  "get_prop ob k = (case map_of ob k of None \<Rightarrow> VUndefined | Some v \<Rightarrow> v)"

text \<open>\<open>k in o\<close>.\<close>

definition has_prop :: "('k \<times> 'v) list \<Rightarrow> 'k \<Rightarrow> bool" where
  "has_prop ob k = (map_of ob k \<noteq> None)"

text \<open>\<open>o.k = v\<close>: overwrites in place, or appends a new key.\<close>

definition set_prop :: "('k \<times> 'v) list \<Rightarrow> 'k \<Rightarrow> 'v \<Rightarrow> ('k \<times> 'v) list" where
  "set_prop ob k v = AList.update k v ob"

text \<open>\<open>delete o.k\<close>.\<close>

definition delete_prop :: "('k \<times> 'v) list \<Rightarrow> 'k \<Rightarrow> ('k \<times> 'v) list" where
  "delete_prop ob k = AList.delete k ob"

text \<open>ToBoolean, as the condition of an \<open>if\<close> applies it.\<close>

fun truthy :: "jsvalue \<Rightarrow> bool" where
  "truthy VUndefined = False"
| "truthy VNull = False"
| "truthy (VBool b) = b"
| "truthy (VNum n) = (n \<noteq> 0)"
| "truthy VNaN = False"
| "truthy (VStr s) = (s \<noteq> [])"
| "truthy (VArr _) = True"
| "truthy (VObj _) = True"

text \<open>\<open>v != null\<close>: loose inequality, false exactly for \<open>null\<close> and \<open>undefined\<close>.\<close>

fun not_nullish :: "jsvalue \<Rightarrow> bool" where
  "not_nullish VUndefined = False"
| "not_nullish VNull = False"
| "not_nullish _ = True"

text \<open>
  The host the program runs on: the offset of its local time zone from UTC in minutes
  (moment works in local time unless told otherwise), and the engine's conversion of a
  string to a number, which the generators never reach and which is therefore left to
  the host rather than re-implemented.
\<close>

record host =
  utcOffset :: int
  StringToNumber :: "string \<Rightarrow> jsvalue"

text \<open>
  ToNumber. An array converts through its string form: the empty array gives 0, an
  array of one element converts that element's string (empty for \<open>null\<close> and
  \<open>undefined\<close>, never numeric for a boolean or an object), a longer one contains a
  comma and gives NaN. A plain object prints as \<open>[object Object]\<close> and gives NaN.
\<close>

fun to_number :: "host \<Rightarrow> jsvalue \<Rightarrow> jsvalue" where
  "to_number h VUndefined = VNaN"
| "to_number h VNull = VNum 0"
| "to_number h (VBool b) = VNum (if b then 1 else 0)"
| "to_number h (VNum n) = VNum n"
| "to_number h VNaN = VNaN"
| "to_number h (VStr s) = StringToNumber h s"
| "to_number h (VArr []) = VNum 0"
| "to_number h (VArr [VUndefined]) = VNum 0"
| "to_number h (VArr [VNull]) = VNum 0"
| "to_number h (VArr [VBool b]) = VNaN"
| "to_number h (VArr [VObj ob]) = VNaN"
| "to_number h (VArr [v]) = to_number h v"
| "to_number h (VArr (v # w # vs)) = VNaN"
| "to_number h (VObj ob) = VNaN"

text \<open>The operator \<open>*\<close>.\<close>

definition js_times :: "host \<Rightarrow> jsvalue \<Rightarrow> jsvalue \<Rightarrow> jsvalue" where
  "js_times h a b =
     (case (to_number h a, to_number h b) of
        (VNum x, VNum y) \<Rightarrow> VNum (x * y)
      | _ \<Rightarrow> VNaN)"

subsection \<open>lodash\<close>

text \<open>\<open>_.includes(array, value)\<close>.\<close>

definition includes_js :: "'a list \<Rightarrow> 'a \<Rightarrow> bool" where
  "includes_js xs v = (v \<in> set xs)"

text \<open>\<open>_.values(object)\<close>.\<close>

definition values_of :: "('k \<times> 'v) list \<Rightarrow> 'v list" where
  "values_of ob = map snd ob"

text \<open>
  \<open>_.assign(target, source, ...)\<close>: every own key of every source, in order, is
  written to the target; a later source overwrites an earlier one.
\<close>

definition assign1 :: "('k \<times> 'v) list \<Rightarrow> ('k \<times> 'v) list \<Rightarrow> ('k \<times> 'v) list" where
  "assign1 target source = foldl (\<lambda>t (k, v). set_prop t k v) target source"

definition assign :: "('k \<times> 'v) list \<Rightarrow> ('k \<times> 'v) list list \<Rightarrow> ('k \<times> 'v) list" where
  "assign target sources = foldl assign1 target sources"

text \<open>\<open>_.pick(object, keys)\<close>: a new object holding those of the keys that the object has.\<close>

definition pick :: "('k \<times> 'v) list \<Rightarrow> 'k list \<Rightarrow> ('k \<times> 'v) list" where
  "pick ob ks = List.map_filter (\<lambda>k. map_option (Pair k) (map_of ob k)) ks"

text \<open>\<open>array.join(sep)\<close> on strings.\<close>

fun join :: "string \<Rightarrow> string list \<Rightarrow> string" where
  "join sep [] = []"
| "join sep [x] = x"
| "join sep (x # y # ys) = x @ sep @ join sep (y # ys)"

section \<open>The chance library\<close>

text \<open>
  chance.js is a third-party library; the model follows its documented algorithm. Its
  source of randomness is a Mersenne Twister giving one 32-bit number per draw: the
  state is the sequence of the numbers still to come, and nothing is assumed about it.
  \<open>random()\<close> scales a draw into \<open>[0, 1)\<close>; \<open>integer({min, max})\<close> is
  \<open>Math.floor(random() * (max - min + 1) + min)\<close>; \<open>floating({min, max, fixed})\<close>
  draws an integer between \<open>min * 10^fixed\<close> and \<open>max * 10^fixed\<close> and divides it
  by \<open>10^fixed\<close>, with \<open>fixed\<close> 4 when not given.
\<close>

type_synonym chance = "nat \<Rightarrow> nat"

definition chance_random :: "chance \<Rightarrow> rat \<times> chance" where
  "chance_random c = (of_nat (c 0 mod 4294967296) / 4294967296, \<lambda>n. c (Suc n))"

definition chance_integer :: "rat \<Rightarrow> rat \<Rightarrow> chance \<Rightarrow> rat \<times> chance" where
  "chance_integer lo hi c =
     (let (r, c') = chance_random c in (of_int \<lfloor>r * (hi - lo + 1) + lo\<rfloor>, c'))"

definition chance_floating :: "rat \<Rightarrow> rat \<Rightarrow> nat \<Rightarrow> chance \<Rightarrow> rat \<times> chance" where
  "chance_floating lo hi fixed c =
     (let f = 10 ^ fixed; (num, c') = chance_integer (lo * f) (hi * f) c in (num / f, c'))"

text \<open>\<open>Math.round\<close>: the nearest integer, a half rounded up.\<close>

definition Math_round :: "rat \<Rightarrow> rat" where
  "Math_round x = of_int \<lfloor>x + 1 / 2\<rfloor>"

section \<open>Field descriptors and schema fragments\<close>

text \<open>
  A field descriptor pairs the field's example value (\<open>instance\<close>) with its contract
  (\<open>summary\<close>). An example value is a literal, a function of this repository, or a
  member of the \<open>./common\<close> module, which is not among the sources and is referred to
  by name. Of a summary the model keeps the required flags (\<open>null\<close> is \<open>None\<close>), the
  numerical type, the range and the nested keys (\<open>nested: true\<close> is the presence of
  keys); the prose of \<open>description\<close> and \<open>nestedPropertiesIntro\<close> and the
  \<open>changelog\<close> entries are documentation text built by \<open>./common\<close> and are left out.
  \<open>common.basalRateSummary\<close> and \<open>common.propTypes.oneOfStringOptions\<close> are kept
  as names.
\<close>

datatype fn_ref = PercentInstance | BloodKetoneValue

datatype common_ref = CommonDuration | CommonBasalRateValue | CommonScheduleNames

datatype instance_t = Lit jsvalue | Fn fn_ref | Common common_ref

datatype bound = BNum rat | BStr string

datatype range_t = MinMax bound bound | OneOfStringOptions "string list"

datatype numericalType = INTEGER_MS | FLOATING_POINT_DEVICE_SIG_FIGS | NumericalText string

datatype summary =
    Summary (required_jellyfish: "bool option") (required_platform: "bool option")
      (numerical: "numericalType option") (range_of: "range_t option")
      (keys: "(string \<times> descriptor) list option")
  | CommonBasalRateSummary
and descriptor =
    Descriptor (instance_of: instance_t) (summary_of: "summary option")

type_synonym fragment = "(string \<times> descriptor) list"

subsection \<open>basal.js\<close>

definition DELIVERY_TYPES :: "(string \<times> string) list" where
  "DELIVERY_TYPES = [(''scheduled'', ''scheduled''), (''temp'', ''temp''), (''suspend'', ''suspend'')]"

definition TYPE_basal :: string where
  "TYPE_basal = ''basal''"

definition percentInstance :: "chance \<Rightarrow> jsvalue \<times> chance" where
  "percentInstance c =
     (let (u, c') = chance_floating 0 1 4 c in (VNum (Math_round (u * 20) / 20), c'))"

definition percentSummary :: summary where
  "percentSummary =
     Summary (Some False) (Some False)
       (Some (NumericalText ''Floating point value representing a percentage, where 1.0 represents 100%.''))
       (Some (MinMax (BStr ''0.0'') (BStr ''10.0''))) None"

definition previous_descriptor :: descriptor where
  "previous_descriptor =
     Descriptor (Lit (VObj [])) (Some (Summary (Some False) None None None None))"

definition scheduleName_descriptor :: descriptor where
  "scheduleName_descriptor =
     Descriptor (Common CommonScheduleNames) (Some (Summary (Some False) (Some False) None None None))"

definition schemas_base :: fragment where
  "schemas_base =
     [(''type'', Descriptor (Lit (VStr TYPE_basal)) (Some (Summary (Some True) (Some True) None None None)))]"

definition schemas_scheduled :: fragment where
  "schemas_scheduled =
     [(''deliveryType'', Descriptor (Lit (VStr ''scheduled''))
         (Some (Summary (Some True) (Some True) None None None))),
      (''duration'', Descriptor (Common CommonDuration)
         (Some (Summary (Some False) (Some True) (Some INTEGER_MS)
            (Some (MinMax (BNum 0) (BNum 432000000))) None))),
      (''expectedDuration'', Descriptor (Lit (VNum 0))
         (Some (Summary (Some False) (Some False) (Some INTEGER_MS)
            (Some (MinMax (BStr ''>= `duration`'') (BNum 432000000))) None))),
      (''rate'', Descriptor (Common CommonBasalRateValue) (Some CommonBasalRateSummary)),
      (''previous'', previous_descriptor),
      (''scheduleName'', scheduleName_descriptor)]"

definition temp_suppressed_keys :: fragment where
  "temp_suppressed_keys =
     [(''type'', Descriptor (Lit (VStr TYPE_basal)) (Some (Summary (Some False) (Some True) None None None))),
      (''deliveryType'', Descriptor (Lit (VStr ''scheduled''))
         (Some (Summary (Some False) (Some True) None None None))),
      (''rate'', Descriptor (Common CommonBasalRateValue) (Some CommonBasalRateSummary)),
      (''scheduleName'', scheduleName_descriptor)]"

definition schemas_temp :: fragment where
  "schemas_temp =
     [(''deliveryType'', Descriptor (Lit (VStr ''temp''))
         (Some (Summary (Some True) (Some True) None None None))),
      (''duration'', Descriptor (Common CommonDuration)
         (Some (Summary (Some True) (Some True) (Some INTEGER_MS)
            (Some (MinMax (BNum 0) (BNum 86400000))) None))),
      (''expectedDuration'', Descriptor (Lit (VNum 0))
         (Some (Summary (Some False) (Some False) (Some INTEGER_MS)
            (Some (MinMax (BStr ''>= `duration`'') (BNum 86400000))) None))),
      (''percent'', Descriptor (Fn PercentInstance) (Some percentSummary)),
      (''previous'', previous_descriptor),
      (''rate'', Descriptor (Lit (VNum 0))
         (Some (Summary (Some False) (Some True) (Some FLOATING_POINT_DEVICE_SIG_FIGS)
            (Some (MinMax (BStr ''0.0'') (BStr ''20.0''))) None))),
      (''suppressed'', Descriptor (Lit (VObj []))
         (Some (Summary (Some False) (Some False) None None (Some temp_suppressed_keys))))]"

definition suspend_suppressed_keys :: fragment where
  "suspend_suppressed_keys =
     [(''type'', Descriptor (Lit (VStr TYPE_basal)) (Some (Summary (Some False) (Some True) None None None))),
      (''deliveryType'', Descriptor (Lit (VArr [VStr ''temp'', VStr ''suspend'']))
         (Some (Summary (Some False) (Some True) None
            (Some (OneOfStringOptions [''scheduled'', ''temp''])) None))),
      (''percent'', Descriptor (Fn PercentInstance) (Some percentSummary)),
      (''rate'', Descriptor (Common CommonBasalRateValue) (Some CommonBasalRateSummary)),
      (''scheduleName'', scheduleName_descriptor),
      (''suppressed'', Descriptor (Lit (VObj []))
         (Some (Summary (Some False) (Some False) None None None)))]"

definition schemas_suspend :: fragment where
  "schemas_suspend =
     [(''deliveryType'', Descriptor (Lit (VStr ''suspend''))
         (Some (Summary (Some True) (Some True) None None None))),
      (''duration'', Descriptor (Common CommonDuration)
         (Some (Summary (Some False) (Some True) (Some INTEGER_MS)
            (Some (MinMax (BNum 0) (BNum 86400000))) None))),
      (''expectedDuration'', Descriptor (Lit (VNum 0))
         (Some (Summary (Some False) (Some False) (Some INTEGER_MS)
            (Some (MinMax (BStr ''>= `duration`'') (BNum 86400000))) None))),
      (''previous'', previous_descriptor),
      (''suppressed'', Descriptor (Lit (VObj []))
         (Some (Summary (Some False) (Some False) None None (Some suspend_suppressed_keys))))]"

definition schemas :: "(string \<times> fragment) list" where
  "schemas =
     [(''base'', schemas_base), (''scheduled'', schemas_scheduled),
      (''temp'', schemas_temp), (''suspend'', schemas_suspend)]"

text \<open>
  \<open>schemas[k]\<close> as a source of \<open>_.assign\<close>, which skips a source that is
  \<open>undefined\<close>: a key that is not a string, or not one of the table, contributes nothing.
\<close>

fun schemas_at :: "jsvalue \<Rightarrow> fragment" where
  "schemas_at (VStr k) = (case map_of schemas k of None \<Rightarrow> [] | Some f \<Rightarrow> f)"
| "schemas_at _ = []"

definition deliveryTypes :: "string list" where
  "deliveryTypes = values_of DELIVERY_TYPES"

text \<open>
  What \<open>generate\<close> is called with. \<open>subType\<close> is whatever the caller passed;
  \<open>timestamp\<close> is the instant the caller's date string denotes, in milliseconds since
  the epoch (moment parses the string, and \<open>toISOString\<close> prints an instant back);
  \<open>format\<close> is absent (\<open>None\<close>) or the name of an output format.
\<close>

record opts =
  subType :: jsvalue
  timestamp :: int
  format :: "string option"

text \<open>
  \<open>moment(t).startOf('hour')\<close>: the instant minus what the local clock shows past
  the full hour.
\<close>

definition startOf_hour :: "host \<Rightarrow> int \<Rightarrow> int" where
  "startOf_hour h t = t - (t + utcOffset h * 60000) mod 3600000"

text \<open>
  \<open>console.error(message); process.exit()\<close>: the process writes the message to its
  standard error and ends; nothing is returned to the caller.
\<close>

datatype exit = ProcessExit string

text \<open>
  \<open>module.generate\<close> of basal.js. \<open>common.generate\<close> is passed in: its code is not
  among the sources, and what holds for every function in its place holds for it. The
  state \<open>'s\<close> is whatever \<open>common.generate\<close> reads and changes (the random source).
\<close>

definition module_generate ::
  "(fragment \<Rightarrow> int \<Rightarrow> string option \<Rightarrow> 's \<Rightarrow> obj \<times> 's) \<Rightarrow> host \<Rightarrow> opts \<Rightarrow> 's \<Rightarrow> exit + obj \<times> 's" where
  "module_generate common_generate h opts s =
     (if \<not> includes_js (map VStr deliveryTypes) (subType opts) then
        Inl (ProcessExit (''Basal subType (= deliveryType) must be one of: ''
               @ join '', '' deliveryTypes @ ''!''))
      else
        let roundedTimestamp = startOf_hour h (timestamp opts);
            (basal, s) = common_generate (assign [] [schemas_base, schemas_at (subType opts)])
                           roundedTimestamp (format opts) s;
            basal = delete_prop basal ''previous''
        in if includes_js [VStr ''temp'', VStr ''suspend''] (subType opts) then
             let (suppressed, s) = common_generate (assign [] [schemas_base, schemas_scheduled])
                                     roundedTimestamp None s;
                 basal = set_prop basal ''suppressed''
                           (VObj (pick suppressed [''type'', ''deliveryType'', ''scheduleName'', ''rate'']));
                 basal = (if truthy (get_prop basal ''percent'')
                          then set_prop basal ''rate''
                                 (js_times h (get_prop basal ''percent'') (get_prop suppressed ''rate''))
                          else basal);
                 basal = set_prop basal ''expectedDuration''
                           (js_times h (VNum (12 / 10)) (get_prop basal ''duration''))
             in Inr (basal, s)
           else
             Inr (if not_nullish (get_prop basal ''expectedDuration'')
                  then delete_prop basal ''expectedDuration'' else basal, s))"

subsection \<open>bloodKetone.js\<close>

definition TYPE_bloodKetone :: string where
  "TYPE_bloodKetone = ''bloodKetone''"

definition UNITS :: string where
  "UNITS = ''mmol/L''"

definition bloodKetone_value :: "chance \<Rightarrow> jsvalue \<times> chance" where
  "bloodKetone_value c = (let (v, c') = chance_floating 0 5 1 c in (VNum v, c'))"

text \<open>The descriptors of this module carry a description and no summary.\<close>

definition bloodKetone_schema :: fragment where
  "bloodKetone_schema =
     [(''type'', Descriptor (Lit (VStr TYPE_bloodKetone)) None),
      (''units'', Descriptor (Lit (VStr UNITS)) None),
      (''value'', Descriptor (Fn BloodKetoneValue) None)]"

definition bloodKetone_generate ::
  "(fragment \<Rightarrow> 't \<Rightarrow> 'f \<Rightarrow> 's \<Rightarrow> obj \<times> 's) \<Rightarrow> 't \<Rightarrow> 'f \<Rightarrow> 's \<Rightarrow> obj \<times> 's" where
  "bloodKetone_generate common_generate utc fmt s = common_generate bloodKetone_schema utc fmt s"

section \<open>The common module\<close>

text \<open>
  Modelled from the spec: the field names of the envelope of common fields. The module
  \<open>./common\<close> is not among the sources; the spec says it supplies the universal
  envelope fields (time, device and upload identifiers, schema and version metadata)
  with a stable field-name set. The names are those the repository's generated
  documentation lists under "common fields".
\<close>

datatype common_field =
    ClockDriftOffset | ConversionOffset | DeviceId | DeviceTime | Guid | Time
  | TimezoneOffset | UploadId | Active | GroupId | SchemaVersion | Version
  | CreatedTime | Id

fun field_name :: "common_field \<Rightarrow> string" where
  "field_name ClockDriftOffset = ''clockDriftOffset''"
| "field_name ConversionOffset = ''conversionOffset''"
| "field_name DeviceId = ''deviceId''"
| "field_name DeviceTime = ''deviceTime''"
| "field_name Guid = ''guid''"
| "field_name Time = ''time''"
| "field_name TimezoneOffset = ''timezoneOffset''"
| "field_name UploadId = ''uploadId''"
| "field_name Active = ''_active''"
| "field_name GroupId = ''_groupId''"
| "field_name SchemaVersion = ''_schemaVersion''"
| "field_name Version = ''_version''"
| "field_name CreatedTime = ''createdTime''"
| "field_name Id = ''id''"

text \<open>
  Modelled from the spec: the members of \<open>./common\<close> that the schemas and
  \<open>generate\<close> use, none of which is among the sources. \<open>duration\<close> and
  \<open>basalRateValue\<close> produce numbers from the random source (a constant is a producer
  that leaves the source alone); \<open>SCHEDULE_NAMES\<close> is a value; \<open>commonFields\<close> gives
  the envelope for a timestamp and an output format. Which numbers and which envelope
  values is left open: a statement about \<open>common\<close> holds for every such record.
\<close>

record common =
  duration :: "chance \<Rightarrow> rat \<times> chance"
  basalRateValue :: "chance \<Rightarrow> rat \<times> chance"
  SCHEDULE_NAMES :: jsvalue
  commonFields :: "int \<Rightarrow> string option \<Rightarrow> chance \<Rightarrow> (common_field \<times> jsvalue) list \<times> chance"

text \<open>The two functions of the sources that a descriptor refers to.\<close>

fun call_fn :: "fn_ref \<Rightarrow> chance \<Rightarrow> jsvalue \<times> chance" where
  "call_fn PercentInstance c = percentInstance c"
| "call_fn BloodKetoneValue c = bloodKetone_value c"

fun common_member :: "common \<Rightarrow> common_ref \<Rightarrow> chance \<Rightarrow> jsvalue \<times> chance" where
  "common_member env CommonDuration c = (let (d, c') = duration env c in (VNum d, c'))"
| "common_member env CommonBasalRateValue c = (let (r, c') = basalRateValue env c in (VNum r, c'))"
| "common_member env CommonScheduleNames c = (SCHEDULE_NAMES env, c)"

text \<open>
  Modelled from the spec: resolving an example value. "If it is a zero-argument
  generator, invoke it; otherwise use the literal as-is."
\<close>

fun resolve :: "common \<Rightarrow> instance_t \<Rightarrow> chance \<Rightarrow> jsvalue \<times> chance" where
  "resolve env (Lit v) c = (v, c)"
| "resolve env (Fn f) c = call_fn f c"
| "resolve env (Common r) c = common_member env r c"

text \<open>\<open>_.mapValues\<close> with a function that draws from a state, in key order.\<close>

fun mapValues :: "('d \<Rightarrow> 's \<Rightarrow> 'v \<times> 's) \<Rightarrow> (string \<times> 'd) list \<Rightarrow> 's \<Rightarrow> (string \<times> 'v) list \<times> 's" where
  "mapValues f [] s = ([], s)"
| "mapValues f ((k, d) # rest) s =
     (let (v, s1) = f d s; (ob, s2) = mapValues f rest s1 in ((k, v) # ob, s2))"

text \<open>
  Modelled from the spec: \<open>common.generate(schema, utc, format)\<close>, which is not among
  the sources. "For each field in the effective schema, resolve the example value";
  then "apply universal record-envelope fields from a shared common-fields fragment".
\<close>

definition common_generate :: "common \<Rightarrow> fragment \<Rightarrow> int \<Rightarrow> string option \<Rightarrow> chance \<Rightarrow> obj \<times> chance" where
  "common_generate env schema utc fmt c =
     (let (example, c1) = mapValues (\<lambda>d. resolve env (instance_of d)) schema c;
          (envelope, c2) = commonFields env utc fmt c1
      in (assign example [map (\<lambda>(f, v). (field_name f, v)) envelope], c2))"

text \<open>
  Modelled from the spec: \<open>common.duration\<close>, whose code is not among the sources. The
  spec describes an example value that is a generator as a zero-argument function
  "returning a value satisfying the field's range contract", yielding "varied/random
  but constraint-satisfying examples". The contract is read off the descriptors of the
  sources: \<open>common.duration\<close> is the example value of the \<open>duration\<close> field of the three
  delivery types, each declaring a range in integer milliseconds, and a value that
  satisfies all of them lies between the largest declared minimum and the smallest
  declared maximum. The generator draws an integer from that interval.
\<close>

fun declared_range :: "descriptor \<Rightarrow> (rat \<times> rat) option" where
  "declared_range (Descriptor i (Some (Summary rj rp nt (Some (MinMax (BNum lo) (BNum hi))) ks))) =
     Some (lo, hi)"
| "declared_range d = None"

definition duration_ranges :: "(rat \<times> rat) list" where
  "duration_ranges =
     List.map_filter declared_range
       (filter (\<lambda>d. instance_of d = Common CommonDuration)
          (concat (map (\<lambda>(name, fragment). map snd fragment) schemas)))"

definition common_duration :: "chance \<Rightarrow> rat \<times> chance" where
  "common_duration c =
     chance_integer (Max (set (map fst duration_ranges))) (Min (set (map snd duration_ranges))) c"

section \<open>Composition on shared objects\<close>

text \<open>
  \<open>_.assign\<close> changes its first argument in place, and the fragments of \<open>schemas\<close>
  are shared by every call of \<open>generate\<close>. To say what a composition leaves behind,
  objects live in a store and are passed by reference: a reference is a position in
  the store, \<open>{}\<close> allocates at the end.
\<close>

type_synonym ref = nat

type_synonym ('k, 'v) store = "('k \<times> 'v) list list"

definition deref :: "('k, 'v) store \<Rightarrow> ref \<Rightarrow> ('k \<times> 'v) list" where
  "deref st r = (if r < length st then st ! r else [])"

definition new_object :: "('k, 'v) store \<Rightarrow> ref \<times> ('k, 'v) store" where
  "new_object st = (length st, st @ [[]])"

definition assign_ref :: "('k, 'v) store \<Rightarrow> ref \<Rightarrow> ref list \<Rightarrow> ('k, 'v) store" where
  "assign_ref st target sources =
     foldl (\<lambda>st src. st[target := assign1 (deref st target) (deref st src)]) st sources"

text \<open>\<open>_.assign({}, fragment, ...)\<close>, as \<open>generate\<close> composes an effective schema.\<close>

definition compose :: "('k, 'v) store \<Rightarrow> ref list \<Rightarrow> ref \<times> ('k, 'v) store" where
  "compose st sources = (let (target, st1) = new_object st in (target, assign_ref st1 target sources))"

section \<open>Instrumentation and sample inputs\<close>

text \<open>
  \<open>common.generate\<close> wrapped so that every call appends the timestamp it was given
  to a list kept beside the state.
\<close>

definition recording ::
  "(fragment \<Rightarrow> int \<Rightarrow> string option \<Rightarrow> 's \<Rightarrow> obj \<times> 's) \<Rightarrow>
   fragment \<Rightarrow> int \<Rightarrow> string option \<Rightarrow> int list \<times> 's \<Rightarrow> obj \<times> int list \<times> 's" where
  "recording cg schema utc fmt ls =
     (let (ob, s') = cg schema utc fmt (snd ls) in (ob, fst ls @ [utc], s'))"

text \<open>
  A sample of everything the generators are given, at which the theorems below are
  instantiated: a common module, a host seven hours behind UTC, a random source, and
  the call \<open>generate({subType: 'temp', timestamp: '2016-05-04T08:18:06.425Z'})\<close>.
\<close>

definition example_common :: common where
  "example_common =
     \<lparr>duration = (\<lambda>c. (of_nat (c 0 mod 86400001), \<lambda>n. c (Suc n))),
      basalRateValue = (\<lambda>c. (2, c)),
      SCHEDULE_NAMES = VStr ''Standard'',
      commonFields = (\<lambda>utc fmt c.
        ([(Time, VNum (of_int utc)), (DeviceId, VStr ''DevId0987654321'')], c))\<rparr>"

definition example_host :: host where
  "example_host = \<lparr>utcOffset = -420, StringToNumber = (\<lambda>s. VNaN)\<rparr>"

definition example_chance :: chance where
  "example_chance = (\<lambda>n. 2147483648)"

definition example_opts :: opts where
  "example_opts = \<lparr>subType = VStr ''temp'', timestamp = 1462349886425, format = None\<rparr>"

section \<open>Objects: lookups after an update\<close>

lemma map_of_set_prop: "map_of (set_prop ob k v) = (map_of ob)(k \<mapsto> v)"
  by (simp add: set_prop_def update_conv')

lemma map_of_delete_prop: "map_of (delete_prop ob k) = (map_of ob)(k := None)"
  by (simp add: delete_prop_def delete_conv')

lemma has_prop_set_prop: "has_prop (set_prop ob k v) j = (j = k \<or> has_prop ob j)"
  by (simp add: has_prop_def map_of_set_prop)

lemma has_prop_delete_prop: "has_prop (delete_prop ob k) j = (j \<noteq> k \<and> has_prop ob j)"
  by (simp add: has_prop_def map_of_delete_prop)

lemma get_prop_set_prop: "get_prop (set_prop ob k v) j = (if j = k then v else get_prop ob j)"
  by (simp add: get_prop_def map_of_set_prop)

lemma get_prop_delete_prop:
  "get_prop (delete_prop ob k) j = (if j = k then VUndefined else get_prop ob j)"
  by (simp add: get_prop_def map_of_delete_prop)

lemma get_prop_Nil: "get_prop [] j = VUndefined"
  by (simp add: get_prop_def)

lemma get_prop_Cons: "get_prop ((k, v) # ob) j = (if j = k then v else get_prop ob j)"
  by (simp add: get_prop_def)

lemma has_prop_Nil: "has_prop [] j = False"
  by (simp add: has_prop_def)

lemma has_prop_Cons: "has_prop ((k, v) # ob) j = (j = k \<or> has_prop ob j)"
  by (auto simp add: has_prop_def)

lemma map_of_assign1: "map_of (assign1 t src) = map_of t ++ map_of (rev src)"
  unfolding assign1_def
proof (induction src arbitrary: t)
  case Nil
  show ?case by simp
next
  case (Cons a src)
  obtain k v where a: "a = (k, v)" by (cases a)
  show ?case
    by (simp add: a Cons.IH map_of_set_prop map_add_def fun_eq_iff split: option.splits)
qed

lemma map_of_assign1_other:
  "k \<notin> fst ` set src \<Longrightarrow> map_of (assign1 t src) k = map_of t k"
  by (simp add: map_of_assign1 map_add_def map_of_eq_None_iff[THEN iffD2] split: option.splits)

lemma js_times_num: "js_times h (VNum x) (VNum y) = VNum (x * y)"
  by (simp add: js_times_def)

lemma known_subType:
  "includes_js (map VStr deliveryTypes) v = (v \<in> {VStr ''scheduled'', VStr ''temp'', VStr ''suspend''})"
  by (auto simp add: includes_js_def deliveryTypes_def values_of_def DELIVERY_TYPES_def)

lemma includes_temp_suspend:
  "includes_js [VStr ''temp'', VStr ''suspend''] v = (v = VStr ''temp'' \<or> v = VStr ''suspend'')"
  by (auto simp add: includes_js_def)

section \<open>The random draws\<close>

lemma chance_random_range: "0 \<le> fst (chance_random c) \<and> fst (chance_random c) < 1"
  by (simp add: chance_random_def)

lemma chance_integer_range:
  assumes "a \<le> b"
  shows "\<exists>n. fst (chance_integer (of_int a) (of_int b) c) = of_int n \<and> a \<le> n \<and> n \<le> b"
proof -
  let ?r = "fst (chance_random c)"
  let ?x = "?r * (of_int b - of_int a + 1) + (of_int a :: rat)"
  have r: "0 \<le> ?r" "?r < 1" using chance_random_range by auto
  have w: "(0::rat) < of_int b - of_int a + 1" using assms by linarith
  have lo: "of_int a \<le> ?x" using r(1) w by simp
  have "?r * (of_int b - of_int a + 1) < 1 * (of_int b - of_int a + 1)"
    using r(2) w by (rule mult_strict_right_mono)
  then have hi: "?x < of_int (b + 1)" by simp
  have A: "a \<le> \<lfloor>?x\<rfloor>" using lo by (simp only: le_floor_iff)
  have "\<lfloor>?x\<rfloor> < b + 1" using hi by (simp only: floor_less_iff)
  then have B: "\<lfloor>?x\<rfloor> \<le> b" by linarith
  have e: "fst (chance_integer (of_int a) (of_int b) c) = of_int \<lfloor>?x\<rfloor>"
    unfolding chance_integer_def by (simp only: Let_def case_prod_beta fst_conv)
  from e A B show ?thesis by blast
qed

lemma chance_floating_range:
  assumes "lo * 10 ^ fixed = of_int a" "hi * 10 ^ fixed = of_int b" "a \<le> b"
  shows "\<exists>n. fst (chance_floating lo hi fixed c) = of_int n / 10 ^ fixed \<and> a \<le> n \<and> n \<le> b"
  using chance_integer_range[OF assms(3), of c]
  by (simp add: chance_floating_def Let_def case_prod_beta assms(1,2))

lemma Math_round_20:
  assumes "0 \<le> u" "u \<le> 1"
  shows "\<exists>k. Math_round (u * 20) = of_int k \<and> 0 \<le> k \<and> k \<le> 20"
proof -
  have "0 \<le> \<lfloor>u * 20 + 1 / 2\<rfloor>" using assms(1) by (simp add: le_floor_iff)
  moreover have "\<lfloor>u * 20 + 1 / 2\<rfloor> < 21" using assms(2) by (simp only: floor_less_iff)
  ultimately show ?thesis by (simp add: Math_round_def)
qed

lemma percentInstance_value:
  "\<exists>k. fst (percentInstance c) = VNum (of_int k / 20) \<and> 0 \<le> k \<and> k \<le> 20"
proof -
  obtain n where n: "fst (chance_floating 0 1 4 c) = of_int n / 10 ^ 4" "0 \<le> n" "n \<le> 10000"
    using chance_floating_range[of 0 4 0 1 10000 c] by auto
  have "0 \<le> fst (chance_floating 0 1 4 c)" "fst (chance_floating 0 1 4 c) \<le> 1"
    using n by simp_all
  from Math_round_20[OF this] show ?thesis
    by (auto simp add: percentInstance_def case_prod_beta)
qed

lemma bloodKetone_value_range:
  "\<exists>n. fst (bloodKetone_value c) = VNum (of_int n / 10) \<and> 0 \<le> n \<and> n \<le> 50"
  using chance_floating_range[of 0 1 0 5 50 c]
  by (auto simp add: bloodKetone_value_def case_prod_beta)

section \<open>What common.generate returns for the schemas of the sources\<close>

lemma field_name_not_own:
  "field_name f \<notin> {''type'', ''deliveryType'', ''duration'', ''expectedDuration'', ''percent'',
     ''previous'', ''rate'', ''scheduleName'', ''suppressed'', ''units'', ''value''}"
  by (cases f) simp_all

lemma own_keys:
  "\<forall>f. field_name f \<noteq> ''type''" "\<forall>f. field_name f \<noteq> ''deliveryType''"
  "\<forall>f. field_name f \<noteq> ''duration''" "\<forall>f. field_name f \<noteq> ''expectedDuration''"
  "\<forall>f. field_name f \<noteq> ''percent''" "\<forall>f. field_name f \<noteq> ''previous''"
  "\<forall>f. field_name f \<noteq> ''rate''" "\<forall>f. field_name f \<noteq> ''scheduleName''"
  "\<forall>f. field_name f \<noteq> ''suppressed''" "\<forall>f. field_name f \<noteq> ''units''"
  "\<forall>f. field_name f \<noteq> ''value''"
  using field_name_not_own by simp_all

lemma common_generate_own:
  assumes "\<forall>f. field_name f \<noteq> k"
  shows "map_of (fst (common_generate env sch utc fmt c)) k =
           map_of (fst (mapValues (\<lambda>d. resolve env (instance_of d)) sch c)) k"
proof -
  have "k \<notin> fst ` set (map (\<lambda>(f, v). (field_name f, v)) envl)"
    for envl :: "(common_field \<times> jsvalue) list"
    using assms by (auto simp: image_iff)
  then show ?thesis
    by (simp add: common_generate_def Let_def case_prod_beta assign_def map_of_assign1_other)
qed

lemma effective_scheduled:
  "assign [] [schemas_base, schemas_scheduled] = schemas_base @ schemas_scheduled"
  by (simp add: assign_def assign1_def set_prop_def schemas_base_def schemas_scheduled_def)

lemma effective_at_scheduled:
  "assign [] [schemas_base, schemas_at (VStr ''scheduled'')] = schemas_base @ schemas_scheduled"
  by (simp add: assign_def assign1_def set_prop_def schemas_def schemas_base_def
      schemas_scheduled_def)

lemma effective_at_temp:
  "assign [] [schemas_base, schemas_at (VStr ''temp'')] = schemas_base @ schemas_temp"
  by (simp add: assign_def assign1_def set_prop_def schemas_def schemas_base_def schemas_temp_def)

lemma effective_at_suspend:
  "assign [] [schemas_base, schemas_at (VStr ''suspend'')] = schemas_base @ schemas_suspend"
  by (simp add: assign_def assign1_def set_prop_def schemas_def schemas_base_def
      schemas_suspend_def)

lemma example_scheduled:
  "fst (mapValues (\<lambda>d. resolve env (instance_of d)) (schemas_base @ schemas_scheduled) c) =
     [(''type'', VStr ''basal''), (''deliveryType'', VStr ''scheduled''),
      (''duration'', VNum (fst (duration env c))), (''expectedDuration'', VNum 0),
      (''rate'', VNum (fst (basalRateValue env (snd (duration env c))))),
      (''previous'', VObj []), (''scheduleName'', SCHEDULE_NAMES env)]"
  by (simp add: schemas_base_def schemas_scheduled_def previous_descriptor_def
      scheduleName_descriptor_def TYPE_basal_def Let_def case_prod_beta)

lemma example_temp:
  "fst (mapValues (\<lambda>d. resolve env (instance_of d)) (schemas_base @ schemas_temp) c) =
     [(''type'', VStr ''basal''), (''deliveryType'', VStr ''temp''),
      (''duration'', VNum (fst (duration env c))), (''expectedDuration'', VNum 0),
      (''percent'', fst (percentInstance (snd (duration env c)))),
      (''previous'', VObj []), (''rate'', VNum 0), (''suppressed'', VObj [])]"
  by (simp add: schemas_base_def schemas_temp_def previous_descriptor_def
      TYPE_basal_def Let_def case_prod_beta)

lemma example_suspend:
  "fst (mapValues (\<lambda>d. resolve env (instance_of d)) (schemas_base @ schemas_suspend) c) =
     [(''type'', VStr ''basal''), (''deliveryType'', VStr ''suspend''),
      (''duration'', VNum (fst (duration env c))), (''expectedDuration'', VNum 0),
      (''previous'', VObj []), (''suppressed'', VObj [])]"
  by (simp add: schemas_base_def schemas_suspend_def previous_descriptor_def
      TYPE_basal_def Let_def case_prod_beta)

lemma example_bloodKetone:
  "fst (mapValues (\<lambda>d. resolve env (instance_of d)) bloodKetone_schema c) =
     [(''type'', VStr ''bloodKetone''), (''units'', VStr ''mmol/L''),
      (''value'', fst (bloodKetone_value c))]"
  by (simp add: bloodKetone_schema_def TYPE_bloodKetone_def UNITS_def Let_def case_prod_beta)

lemma suppressed_pick:
  "pick (fst (common_generate env (schemas_base @ schemas_scheduled) utc fmt c))
      [''type'', ''deliveryType'', ''scheduleName'', ''rate''] =
     [(''type'', VStr ''basal''), (''deliveryType'', VStr ''scheduled''),
      (''scheduleName'', SCHEDULE_NAMES env),
      (''rate'', VNum (fst (basalRateValue env (snd (duration env c)))))]"
  by (simp add: pick_def map_filter_simps common_generate_own own_keys example_scheduled)

lemma scheduled_generated:
  "get_prop (fst (common_generate env (schemas_base @ schemas_scheduled) utc fmt c)) ''rate'' =
     VNum (fst (basalRateValue env (snd (duration env c))))"
  "get_prop (fst (common_generate env (schemas_base @ schemas_scheduled) utc fmt c))
     ''expectedDuration'' = VNum 0"
  by (simp_all add: get_prop_def common_generate_own own_keys example_scheduled)

lemma temp_generated:
  "get_prop (fst (common_generate env (schemas_base @ schemas_temp) utc fmt c)) ''percent'' =
     fst (percentInstance (snd (duration env c)))"
  "get_prop (fst (common_generate env (schemas_base @ schemas_temp) utc fmt c)) ''rate'' = VNum 0"
  "get_prop (fst (common_generate env (schemas_base @ schemas_temp) utc fmt c)) ''duration'' =
     VNum (fst (duration env c))"
  "get_prop (fst (common_generate env (schemas_base @ schemas_temp) utc fmt c)) ''deliveryType'' =
     VStr ''temp''"
  by (simp_all add: get_prop_def common_generate_own own_keys example_temp)

lemma suspend_generated:
  "get_prop (fst (common_generate env (schemas_base @ schemas_suspend) utc fmt c)) ''percent'' =
     VUndefined"
  by (simp add: get_prop_def common_generate_own own_keys example_suspend)

text \<open>The whole of a \<open>temp\<close> generation, field by field.\<close>

lemma temp_result:
  assumes "subType opts = VStr ''temp''"
    and "fst (percentInstance (snd (duration env c))) = VNum p"
    and "c1 = snd (common_generate env (schemas_base @ schemas_temp)
                 (startOf_hour h (timestamp opts)) (format opts) c)"
    and "r = fst (basalRateValue env (snd (duration env c1)))"
    and "d = fst (duration env c)"
  shows "\<exists>basal s'.
           module_generate (common_generate env) h opts c = Inr (basal, s')
           \<and> get_prop basal ''deliveryType'' = VStr ''temp''
           \<and> get_prop basal ''duration'' = VNum d
           \<and> get_prop basal ''percent'' = VNum p
           \<and> get_prop basal ''suppressed'' =
                VObj [(''type'', VStr ''basal''), (''deliveryType'', VStr ''scheduled''),
                      (''scheduleName'', SCHEDULE_NAMES env), (''rate'', VNum r)]
           \<and> get_prop basal ''rate'' = VNum (p * r)
           \<and> get_prop basal ''expectedDuration'' = VNum (12 / 10 * d)"
  by (simp add: module_generate_def known_subType includes_temp_suspend assms(1) effective_at_temp
      effective_scheduled Let_def case_prod_beta suppressed_pick temp_generated assms(2)
      scheduled_generated assms(3)[symmetric] assms(4)[symmetric] assms(5)[symmetric]
      get_prop_set_prop get_prop_delete_prop js_times_num
      del: schemas_at.simps)

lemma scheduled_result:
  assumes "subType opts = VStr ''scheduled''"
  shows "module_generate (common_generate env) h opts c =
     Inr (delete_prop (delete_prop (fst (common_generate env (schemas_base @ schemas_scheduled)
             (startOf_hour h (timestamp opts)) (format opts) c)) ''previous'') ''expectedDuration'',
          snd (common_generate env (schemas_base @ schemas_scheduled)
             (startOf_hour h (timestamp opts)) (format opts) c))"
  by (simp add: module_generate_def known_subType includes_temp_suspend assms effective_at_scheduled
      Let_def case_prod_beta scheduled_generated get_prop_delete_prop
      del: schemas_at.simps)

lemma duration_ranges_eq:
  "duration_ranges = [(0, 432000000), (0, 86400000), (0, 86400000)]"
  by (simp add: duration_ranges_def schemas_def schemas_base_def schemas_scheduled_def
      schemas_temp_def schemas_suspend_def previous_descriptor_def scheduleName_descriptor_def
      percentSummary_def map_filter_simps)

lemma common_duration_range:
  "\<exists>n. fst (common_duration c) = of_int n \<and> 0 \<le> n \<and> n \<le> 86400000"
proof -
  have "common_duration c = chance_integer (of_int 0) (of_int 86400000) c"
    by (simp add: common_duration_def duration_ranges_eq)
  then show ?thesis
    using chance_integer_range[of 0 86400000 c] by simp
qed

section \<open>The store\<close>

lemma deref_update:
  "deref (st[t := v]) r = (if r = t \<and> t < length st then v else deref st r)"
  by (simp add: deref_def)

lemma assign_ref_eq:
  assumes "target < length st" "target \<notin> set sources"
  shows "assign_ref st target sources =
           st[target := assign (deref st target) (map (deref st) sources)]"
  using assms
proof (induction sources arbitrary: st)
  case Nil
  then show ?case by (simp add: assign_ref_def assign_def deref_def)
next
  case (Cons src sources)
  let ?st = "st[target := assign1 (deref st target) (deref st src)]"
  have len: "target < length ?st" using Cons.prems by simp
  have notin: "target \<notin> set sources" using Cons.prems by simp
  have same: "map (deref ?st) sources = map (deref st) sources"
    using notin by (intro map_cong) (auto simp: deref_update)
  have "assign_ref st target (src # sources) = assign_ref ?st target sources"
    by (simp add: assign_ref_def)
  also have "\<dots> = ?st[target := assign (deref ?st target) (map (deref ?st) sources)]"
    using Cons.IH[OF len notin] .
  also have "\<dots> = st[target := assign (deref st target) (map (deref st) (src # sources))]"
    using Cons.prems by (simp add: same deref_update assign_def)
  finally show ?case .
qed

lemma compose_eq:
  assumes "\<forall>r \<in> set sources. r < length st"
  shows "compose st sources = (length st, st @ [assign [] (map (deref st) sources)])"
proof -
  have notin: "length st \<notin> set sources" using assms by auto
  have same: "map (deref (st @ [[]])) sources = map (deref st) sources"
    using assms by (intro map_cong) (auto simp: deref_def nth_append)
  have "assign_ref (st @ [[]]) (length st) sources =
          (st @ [[]])[length st := assign (deref (st @ [[]]) (length st))
                                     (map (deref (st @ [[]])) sources)]"
    using notin by (intro assign_ref_eq) simp_all
  then show ?thesis
    by (simp add: compose_def new_object_def same deref_def)
qed

section \<open>The hour\<close>

lemma startOf_hour_bounds:
  "startOf_hour h t \<le> t" "t < startOf_hour h t + 3600000"
  "(startOf_hour h t + utcOffset h * 60000) mod 3600000 = 0"
proof -
  let ?m = "(t + utcOffset h * 60000) mod 3600000"
  have "0 \<le> ?m" "?m < 3600000" by simp_all
  then show "startOf_hour h t \<le> t" "t < startOf_hour h t + 3600000"
    by (simp_all add: startOf_hour_def)
  have "startOf_hour h t + utcOffset h * 60000 = (t + utcOffset h * 60000) - ?m"
    by (simp add: startOf_hour_def)
  then show "(startOf_hour h t + utcOffset h * 60000) mod 3600000 = 0"
    by (simp add: minus_mod_eq_mult_div)
qed

lemma percentInstance_zero: "fst (percentInstance (\<lambda>n. 0)) = VNum 0"
proof -
  have "\<lfloor>(1::rat) / 2\<rfloor> = 0" by (simp add: floor_eq_iff)
  then show ?thesis
    by (simp add: percentInstance_def chance_floating_def chance_integer_def chance_random_def
        Math_round_def Let_def)
qed

section \<open>The claims\<close>

text \<open>
  Claim C1. For every basal generation with subType \<open>temp\<close>, the returned instance's
  \<open>rate\<close> equals \<open>percent\<close> times the \<open>rate\<close> of the attached \<open>suppressed\<close>
  sub-record, for every value \<open>percent\<close> can take, 0 included. (When \<open>percent\<close> is 0
  the assignment is skipped and \<open>rate\<close> keeps the 0 of the schema, which is the
  product.) The product is exact in the model, so the equation holds up to the
  rounding of floating-point multiplication.
\<close>

theorem temp_rate_is_percent_times_suppressed_rate:
  assumes "subType opts = VStr ''temp''"
  shows "\<exists>basal s' p supp r.
           module_generate (common_generate env) h opts c = Inr (basal, s')
           \<and> get_prop basal ''percent'' = VNum p
           \<and> get_prop basal ''suppressed'' = VObj supp
           \<and> get_prop supp ''rate'' = VNum r
           \<and> get_prop basal ''rate'' = VNum (p * r)"
proof -
  obtain k where k: "fst (percentInstance (snd (duration env c))) = VNum (of_int k / 20)"
    using percentInstance_value by blast
  obtain basal s' r where
    res: "module_generate (common_generate env) h opts c = Inr (basal, s')"
    and p: "get_prop basal ''percent'' = VNum (of_int k / 20)"
    and s: "get_prop basal ''suppressed'' =
              VObj [(''type'', VStr ''basal''), (''deliveryType'', VStr ''scheduled''),
                    (''scheduleName'', SCHEDULE_NAMES env), (''rate'', VNum r)]"
    and rate: "get_prop basal ''rate'' = VNum (of_int k / 20 * r)"
    using temp_result[OF assms k refl refl refl] by blast
  have "get_prop [(''type'', VStr ''basal''), (''deliveryType'', VStr ''scheduled''),
                    (''scheduleName'', SCHEDULE_NAMES env), (''rate'', VNum r)] ''rate'' = VNum r"
    by (simp add: get_prop_Cons)
  with res p s rate show ?thesis by blast
qed

text \<open>
  The theorem at the sample call, with a random source whose draws are all 0:
  \<open>percent\<close> is 0, the suppressed rate is 2 and \<open>rate\<close> is 0.
\<close>

theorem temp_rate_is_percent_times_suppressed_rate_witness:
  "subType example_opts = VStr ''temp'' \<and>
   (\<exists>basal s' supp.
      module_generate (common_generate example_common) example_host example_opts (\<lambda>n. 0)
        = Inr (basal, s')
      \<and> get_prop basal ''percent'' = VNum 0
      \<and> get_prop basal ''suppressed'' = VObj supp
      \<and> get_prop supp ''rate'' = VNum 2
      \<and> get_prop basal ''rate'' = VNum (0 * 2))"
proof -
  have st: "subType example_opts = VStr ''temp''" by (simp add: example_opts_def)
  have z: "fst (percentInstance (snd (duration example_common (\<lambda>n. 0)))) = VNum 0"
    using percentInstance_zero by (simp add: example_common_def)
  obtain basal s' p supp r where
    res: "module_generate (common_generate example_common) example_host example_opts (\<lambda>n. 0)
            = Inr (basal, s')"
    and p: "get_prop basal ''percent'' = VNum p"
    and s: "get_prop basal ''suppressed'' = VObj supp"
    and r: "get_prop supp ''rate'' = VNum r"
    and rate: "get_prop basal ''rate'' = VNum (p * r)"
    using temp_rate_is_percent_times_suppressed_rate[OF st, of example_common example_host "\<lambda>n. 0"]
    by blast
  obtain basal2 s2 where
    res2: "module_generate (common_generate example_common) example_host example_opts (\<lambda>n. 0)
            = Inr (basal2, s2)"
    and p2: "get_prop basal2 ''percent'' = VNum 0"
    and s2: "get_prop basal2 ''suppressed'' =
               VObj [(''type'', VStr ''basal''), (''deliveryType'', VStr ''scheduled''),
                     (''scheduleName'', SCHEDULE_NAMES example_common), (''rate'', VNum 2)]"
    using temp_result[OF st z refl _ refl, of 2 example_host]
    by (auto simp add: example_common_def)
  have same: "basal2 = basal" using res res2 by simp
  have p0: "p = 0" using p p2 same by simp
  have r2: "r = 2" using s s2 r same by (simp add: get_prop_Cons)
  show ?thesis
    apply (rule conjI[OF st])
    apply (rule exI[of _ basal], rule exI[of _ s'], rule exI[of _ supp])
    using res p s r rate p0 r2 by simp
qed

text \<open>
  Claim C2. \<open>generate({subType: 'temp', timestamp: '2016-05-04T08:18:06.425Z'})\<close> on the
  basal record type yields an instance with \<open>deliveryType\<close> \<open>temp\<close>, a \<open>duration\<close>
  in \<open>[0, 86400000]\<close>, a nested \<open>suppressed\<close> object whose keys are \<open>type\<close>,
  \<open>deliveryType\<close>, \<open>scheduleName\<close> and \<open>rate\<close> and no others, a \<open>percent\<close>, a
  \<open>rate\<close> equal to \<open>percent * suppressed.rate\<close> and an \<open>expectedDuration\<close> equal to
  \<open>1.2 * duration\<close>. The duration is what \<open>common.duration\<close> as modelled from the spec
  returns; everything else of the common module is arbitrary.
\<close>

theorem temp_example_scenario:
  "\<exists>basal s' d p supp r.
           module_generate (common_generate (env\<lparr>duration := common_duration\<rparr>)) h
             \<lparr>subType = VStr ''temp'', timestamp = 1462349886425, format = None\<rparr> c = Inr (basal, s')
           \<and> get_prop basal ''deliveryType'' = VStr ''temp''
           \<and> get_prop basal ''duration'' = VNum d \<and> 0 \<le> d \<and> d \<le> 86400000
           \<and> get_prop basal ''suppressed'' = VObj supp
           \<and> map fst supp = [''type'', ''deliveryType'', ''scheduleName'', ''rate'']
           \<and> get_prop basal ''percent'' = VNum p
           \<and> get_prop supp ''rate'' = VNum r
           \<and> get_prop basal ''rate'' = VNum (p * r)
           \<and> get_prop basal ''expectedDuration'' = VNum (12 / 10 * d)"
proof -
  let ?env = "env\<lparr>duration := common_duration\<rparr>"
  let ?opts = "\<lparr>subType = VStr ''temp'', timestamp = 1462349886425, format = None\<rparr>"
  let ?d = "fst (duration ?env c)"
  obtain k where k: "fst (percentInstance (snd (duration ?env c))) = VNum (of_int k / 20)"
    using percentInstance_value by blast
  have st: "subType ?opts = VStr ''temp''" by simp
  obtain basal s' r where
    res: "module_generate (common_generate ?env) h ?opts c = Inr (basal, s')"
    and dt: "get_prop basal ''deliveryType'' = VStr ''temp''"
    and du: "get_prop basal ''duration'' = VNum ?d"
    and p: "get_prop basal ''percent'' = VNum (of_int k / 20)"
    and s: "get_prop basal ''suppressed'' =
              VObj [(''type'', VStr ''basal''), (''deliveryType'', VStr ''scheduled''),
                    (''scheduleName'', SCHEDULE_NAMES ?env), (''rate'', VNum r)]"
    and rate: "get_prop basal ''rate'' = VNum (of_int k / 20 * r)"
    and ed: "get_prop basal ''expectedDuration'' = VNum (12 / 10 * ?d)"
    using temp_result[OF st k refl refl refl] by blast
  let ?supp = "[(''type'', VStr ''basal''), (''deliveryType'', VStr ''scheduled''),
                    (''scheduleName'', SCHEDULE_NAMES ?env), (''rate'', VNum r)]"
  have sr: "get_prop ?supp ''rate'' = VNum r"
    by (simp add: get_prop_Cons)
  have ks: "map fst ?supp = [''type'', ''deliveryType'', ''scheduleName'', ''rate'']" by simp
  obtain n where n: "fst (common_duration c) = of_int n" "0 \<le> n" "n \<le> 86400000"
    using common_duration_range by blast
  have rng: "0 \<le> ?d" "?d \<le> 86400000"
    using n by simp_all
  show ?thesis
    apply (rule exI[of _ basal], rule exI[of _ s'], rule exI[of _ ?d])
    apply (rule exI[of _ "of_int k / 20"], rule exI[of _ ?supp], rule exI[of _ r])
    apply (intro conjI)
    by (fact res dt du rng s ks p sr rate ed)+
qed

text \<open>The theorem at the sample common module, host and random source.\<close>

theorem temp_example_scenario_witness:
  "\<exists>basal s' d p supp r.
           module_generate (common_generate (example_common\<lparr>duration := common_duration\<rparr>))
             example_host
             \<lparr>subType = VStr ''temp'', timestamp = 1462349886425, format = None\<rparr> example_chance
             = Inr (basal, s')
           \<and> get_prop basal ''deliveryType'' = VStr ''temp''
           \<and> get_prop basal ''duration'' = VNum d \<and> 0 \<le> d \<and> d \<le> 86400000
           \<and> get_prop basal ''suppressed'' = VObj supp
           \<and> map fst supp = [''type'', ''deliveryType'', ''scheduleName'', ''rate'']
           \<and> get_prop basal ''percent'' = VNum p
           \<and> get_prop supp ''rate'' = VNum r
           \<and> get_prop basal ''rate'' = VNum (p * r)
           \<and> get_prop basal ''expectedDuration'' = VNum (12 / 10 * d)"
  by (rule temp_example_scenario)

text \<open>
  Claim C3. For every opts whose subType is not one of the delivery types
  \<open>scheduled\<close>, \<open>temp\<close>, \<open>suspend\<close>, basal \<open>generate\<close> reports the unknown
  discriminant as an error (the message written to standard error) and ends the
  process, whatever \<open>common.generate\<close> is; no variant is chosen in its place.
\<close>

theorem generate_unknown_subType_exits:
  assumes "subType opts \<notin> {VStr ''scheduled'', VStr ''temp'', VStr ''suspend''}"
  shows "module_generate cg h opts s =
           Inl (ProcessExit ''Basal subType (= deliveryType) must be one of: scheduled, temp, suspend!'')"
  using assms
  by (simp add: module_generate_def includes_js_def deliveryTypes_def values_of_def
      DELIVERY_TYPES_def)

theorem generate_unknown_subType_exits_witness:
  "VStr ''base'' \<notin> {VStr ''scheduled'', VStr ''temp'', VStr ''suspend''} \<and>
   module_generate (common_generate example_common) example_host
     \<lparr>subType = VStr ''base'', timestamp = 1462349886425, format = None\<rparr> example_chance =
   Inl (ProcessExit ''Basal subType (= deliveryType) must be one of: scheduled, temp, suspend!'')"
  using generate_unknown_subType_exits[of
      "\<lparr>subType = VStr ''base'', timestamp = 1462349886425, format = None\<rparr>"
      "common_generate example_common" example_host example_chance]
  by simp

text \<open>
  Claim C4. Composition is deterministic and idempotent: composing the same ordered
  list of fragments twice, one composition after the other on the shared objects,
  yields two distinct objects that are structurally equal; each is the right-biased
  merge of the fragments, and no object that existed before is changed.
\<close>

theorem compose_twice_equal:
  assumes "\<forall>r \<in> set sources. r < length st"
  shows "\<exists>r1 st1 r2 st2.
           compose st sources = (r1, st1) \<and> compose st1 sources = (r2, st2)
           \<and> r1 \<noteq> r2
           \<and> deref st2 r1 = deref st2 r2
           \<and> deref st2 r1 = assign [] (map (deref st) sources)
           \<and> map (deref st2) [0..<length st] = map (deref st) [0..<length st]"
proof -
  let ?e = "assign [] (map (deref st) sources)"
  let ?st1 = "st @ [?e]"
  have c1: "compose st sources = (length st, ?st1)"
    using assms by (rule compose_eq)
  have a1: "\<forall>r \<in> set sources. r < length ?st1" using assms by auto
  have same: "map (deref ?st1) sources = map (deref st) sources"
    using assms by (intro map_cong) (auto simp: deref_def nth_append)
  have c2: "compose ?st1 sources = (length ?st1, ?st1 @ [?e])"
    using compose_eq[OF a1] by (simp only: same)
  have ne: "length st \<noteq> length ?st1" by simp
  have d1: "deref (?st1 @ [?e]) (length st) = ?e" by (simp add: deref_def nth_append)
  have d2: "deref (?st1 @ [?e]) (length ?st1) = ?e" by (simp add: deref_def nth_append)
  have fr: "map (deref (?st1 @ [?e])) [0..<length st] = map (deref st) [0..<length st]"
    by (intro map_cong) (auto simp: deref_def nth_append)
  show ?thesis
    apply (rule exI[of _ "length st"], rule exI[of _ ?st1])
    apply (rule exI[of _ "length ?st1"], rule exI[of _ "?st1 @ [?e]"])
    apply (intro conjI)
    by (fact c1 c2 ne d1 | simp only: d1 d2 | fact fr)+
qed

text \<open>
  The theorem on the four fragments of \<open>schemas\<close>, composing \<open>[base, temp]\<close> as
  \<open>generate\<close> does for subType \<open>temp\<close>.
\<close>

theorem compose_twice_equal_witness:
  "0 < length (map snd schemas) \<and> 2 < length (map snd schemas) \<and>
   (\<exists>r1 st1 r2 st2.
           compose (map snd schemas) [0, 2] = (r1, st1) \<and> compose st1 [0, 2] = (r2, st2)
           \<and> r1 \<noteq> r2
           \<and> deref st2 r1 = deref st2 r2
           \<and> deref st2 r1 = assign [] [schemas_base, schemas_at (VStr ''temp'')]
           \<and> map (deref st2) [0..<4] = map snd schemas)"
proof -
  have h: "\<forall>r \<in> set [0, 2]. r < length (map snd schemas)"
    by (simp add: schemas_def)
  have d: "map (deref (map snd schemas)) [0, 2] = [schemas_base, schemas_at (VStr ''temp'')]"
    by (simp add: schemas_def deref_def)
  have l: "length (map snd schemas) = 4" by (simp add: schemas_def)
  have m: "map (deref (map snd schemas)) [0..<4] = map snd schemas"
    by (simp add: schemas_def deref_def upt_rec)
  show ?thesis
    using compose_twice_equal[OF h] h
    by (simp only: d l m) simp
qed

text \<open>
  Claim C5. For every basal generation, the input timestamp is rounded to the start of
  its containing hour once, and that one rounded timestamp is what both the outer
  record's generation and the nested suppressed sub-record's generation are given.
  Stated for every function in the place of \<open>common.generate\<close>: recording the
  timestamps of its calls gives the rounded timestamp once for \<open>scheduled\<close> and
  twice for \<open>temp\<close> and \<open>suspend\<close>, the recording changes nothing of the result, and
  the rounded timestamp is the start of the local hour that contains the input.
\<close>

theorem rounded_timestamp_shared:
  assumes "subType opts \<in> {VStr ''scheduled'', VStr ''temp'', VStr ''suspend''}"
  shows "\<exists>basal calls s' r.
           module_generate (recording cg) h opts ([], s) = Inr (basal, calls, s')
           \<and> module_generate cg h opts s = Inr (basal, s')
           \<and> r = startOf_hour h (timestamp opts)
           \<and> calls = (if subType opts = VStr ''scheduled'' then [r] else [r, r])
           \<and> r \<le> timestamp opts \<and> timestamp opts < r + 3600000
           \<and> (r + utcOffset h * 60000) mod 3600000 = 0"
proof -
  have known: "includes_js (map VStr deliveryTypes) (subType opts)"
    using assms by (simp add: known_subType)
  show ?thesis
  proof (cases "subType opts = VStr ''scheduled''")
    case True
    then show ?thesis
      using known
      by (simp add: module_generate_def recording_def includes_temp_suspend Let_def case_prod_beta
          startOf_hour_bounds del: schemas_at.simps)
  next
    case False
    then have "subType opts = VStr ''temp'' \<or> subType opts = VStr ''suspend''"
      using assms by auto
    then show ?thesis
      using known False
      by (simp add: module_generate_def recording_def includes_temp_suspend Let_def case_prod_beta
          startOf_hour_bounds del: schemas_at.simps)
  qed
qed

text \<open>At the sample call both generations are given 2016-05-04T08:00:00.000Z.\<close>

theorem rounded_timestamp_shared_witness:
  "subType example_opts = VStr ''temp'' \<and>
   (\<exists>basal calls s' r.
           module_generate (recording (common_generate example_common)) example_host example_opts
               ([], example_chance)
             = Inr (basal, calls, s')
           \<and> module_generate (common_generate example_common) example_host example_opts
                example_chance = Inr (basal, s')
           \<and> r = 1462348800000
           \<and> calls = [r, r])"
  using rounded_timestamp_shared[of example_opts "common_generate example_common" example_host
      example_chance]
  by (simp add: example_opts_def example_host_def startOf_hour_def)

text \<open>
  Claim C6. For every basal generation with subType \<open>scheduled\<close>, the variant without
  the expected-duration derived field, the returned instance does not contain the
  \<open>expectedDuration\<close> key, although the variant's schema fragment carries an
  \<open>expectedDuration\<close> descriptor.
\<close>

theorem scheduled_has_no_expectedDuration:
  assumes "subType opts = VStr ''scheduled''"
  shows "\<exists>basal s'. module_generate (common_generate env) h opts c = Inr (basal, s')
           \<and> \<not> has_prop basal ''expectedDuration''
           \<and> has_prop (schemas_at (subType opts)) ''expectedDuration''"
proof -
  have "has_prop (schemas_at (subType opts)) ''expectedDuration''"
    by (simp add: assms has_prop_def schemas_def schemas_scheduled_def)
  then show ?thesis
    by (simp add: scheduled_result[OF assms] has_prop_delete_prop)
qed

theorem scheduled_has_no_expectedDuration_witness:
  "subType \<lparr>subType = VStr ''scheduled'', timestamp = 1462349886425, format = None\<rparr>
     = VStr ''scheduled'' \<and>
   (\<exists>basal s'. module_generate (common_generate example_common) example_host
        \<lparr>subType = VStr ''scheduled'', timestamp = 1462349886425, format = None\<rparr> example_chance
        = Inr (basal, s') \<and> \<not> has_prop basal ''expectedDuration''
           \<and> has_prop (schemas_at (VStr ''scheduled'')) ''expectedDuration'')"
  using scheduled_has_no_expectedDuration[of
     "\<lparr>subType = VStr ''scheduled'', timestamp = 1462349886425, format = None\<rparr>"
     example_common example_host example_chance]
  by (simp del: schemas_at.simps)

text \<open>
  Claim C7. For every basal generation with a known subType (\<open>scheduled\<close>, \<open>temp\<close> or
  \<open>suspend\<close>), the returned instance does not contain the \<open>previous\<close> key, although
  every variant's schema fragment declares a \<open>previous\<close> descriptor. This holds
  whatever \<open>common.generate\<close> returns.
\<close>

theorem generate_never_previous:
  assumes "subType opts \<in> {VStr ''scheduled'', VStr ''temp'', VStr ''suspend''}"
  shows "\<exists>basal s'. module_generate cg h opts s = Inr (basal, s') \<and> \<not> has_prop basal ''previous''
           \<and> has_prop (schemas_at (subType opts)) ''previous''"
proof -
  have decl: "has_prop (schemas_at (subType opts)) ''previous''"
    using assms
    by (auto simp: has_prop_def schemas_def schemas_scheduled_def schemas_temp_def
        schemas_suspend_def)
  have known: "includes_js (map VStr deliveryTypes) (subType opts)"
    using assms by (simp add: known_subType)
  show ?thesis
    using known decl
    by (simp add: module_generate_def Let_def case_prod_beta has_prop_set_prop has_prop_delete_prop)
qed

theorem generate_never_previous_witness:
  "subType example_opts = VStr ''temp'' \<and>
   (\<exists>basal s'. module_generate (common_generate example_common) example_host example_opts
        example_chance
        = Inr (basal, s') \<and> \<not> has_prop basal ''previous''
           \<and> has_prop (schemas_at (VStr ''temp'')) ''previous'')"
  using generate_never_previous[of example_opts "common_generate example_common" example_host
      example_chance]
  by (simp add: example_opts_def del: schemas_at.simps)

text \<open>
  Claim C8. Every value produced by the generator of the \<open>percent\<close> field is a
  multiple of 0.05 in the inclusive interval \<open>[0, 1]\<close>, and therefore lies within the
  field's declared range, whose bounds are written \<open>0.0\<close> and \<open>10.0\<close>.
\<close>

theorem percent_multiple_of_0_05:
  "\<exists>v k. fst (percentInstance c) = VNum v \<and> v = of_int k * (5 / 100) \<and> 0 \<le> v \<and> v \<le> 1
     \<and> v \<le> 10 \<and> range_of percentSummary = Some (MinMax (BStr ''0.0'') (BStr ''10.0''))"
proof -
  obtain k where k: "fst (percentInstance c) = VNum (of_int k / 20)" "0 \<le> k" "k \<le> 20"
    using percentInstance_value by blast
  have a: "(of_int k / 20 :: rat) = of_int k * (5 / 100)" by simp
  have b: "(0::rat) \<le> of_int k / 20" using k(2) by simp
  have c: "(of_int k / 20 :: rat) \<le> 1" using k(3) by simp
  then have d: "(of_int k / 20 :: rat) \<le> 10" by linarith
  have e: "range_of percentSummary = Some (MinMax (BStr ''0.0'') (BStr ''10.0''))"
    by (simp add: percentSummary_def)
  from k(1) a b c d e show ?thesis by blast
qed

theorem percent_multiple_of_0_05_witness:
  "\<exists>v k. fst (percentInstance example_chance) = VNum v \<and> v = of_int k * (5 / 100) \<and> 0 \<le> v
     \<and> v \<le> 1 \<and> v \<le> 10
     \<and> range_of percentSummary = Some (MinMax (BStr ''0.0'') (BStr ''10.0''))"
  by (rule percent_multiple_of_0_05)

text \<open>
  Claim C9. For every basal generation with subType \<open>suspend\<close>, the attached
  \<open>suppressed\<close> sub-record is picked from a generation of the scheduled variant's
  schema: its \<open>deliveryType\<close> is \<open>scheduled\<close>, and it contains neither a \<open>percent\<close>
  key nor a nested \<open>suppressed\<close> key, although the keys documented for the suspend
  variant's \<open>suppressed\<close> field include both.
\<close>

theorem suspend_suppressed_is_scheduled:
  assumes "subType opts = VStr ''suspend''"
  shows "\<exists>basal s' supp.
           module_generate (common_generate env) h opts c = Inr (basal, s')
           \<and> get_prop basal ''suppressed'' = VObj supp
           \<and> supp = pick (fst (common_generate env (assign [] [schemas_base, schemas_scheduled])
                               (startOf_hour h (timestamp opts)) None
                               (snd (common_generate env (assign [] [schemas_base, schemas_suspend])
                                       (startOf_hour h (timestamp opts)) (format opts) c))))
                         [''type'', ''deliveryType'', ''scheduleName'', ''rate'']
           \<and> get_prop supp ''deliveryType'' = VStr ''scheduled''
           \<and> \<not> has_prop supp ''percent''
           \<and> \<not> has_prop supp ''suppressed''
           \<and> has_prop suspend_suppressed_keys ''percent''
           \<and> has_prop suspend_suppressed_keys ''suppressed''"
proof -
  have eff: "assign [] [schemas_base, schemas_suspend] = schemas_base @ schemas_suspend"
    using effective_at_suspend by (simp add: schemas_def)
  have doc: "has_prop suspend_suppressed_keys ''percent''"
    "has_prop suspend_suppressed_keys ''suppressed''"
    by (simp_all add: has_prop_def suspend_suppressed_keys_def)
  show ?thesis
    by (simp add: module_generate_def known_subType includes_temp_suspend assms
      effective_at_suspend eff effective_scheduled Let_def case_prod_beta suppressed_pick
      suspend_generated get_prop_set_prop get_prop_delete_prop get_prop_Cons has_prop_Cons
      has_prop_Nil doc del: schemas_at.simps)
qed

theorem suspend_suppressed_is_scheduled_witness:
  "subType \<lparr>subType = VStr ''suspend'', timestamp = 1462349886425, format = None\<rparr>
     = VStr ''suspend'' \<and>
   (\<exists>basal s' supp.
           module_generate (common_generate example_common) example_host
              \<lparr>subType = VStr ''suspend'', timestamp = 1462349886425, format = None\<rparr>
              example_chance = Inr (basal, s')
           \<and> get_prop basal ''suppressed'' = VObj supp
           \<and> get_prop supp ''deliveryType'' = VStr ''scheduled''
           \<and> \<not> has_prop supp ''percent''
           \<and> \<not> has_prop supp ''suppressed'')"
  using suspend_suppressed_is_scheduled[of
     "\<lparr>subType = VStr ''suspend'', timestamp = 1462349886425, format = None\<rparr>"
     example_common example_host example_chance]
  by simp blast

text \<open>
  Claim C10. Every instance returned by bloodKetone \<open>generate\<close> has \<open>type\<close> equal to
  the string \<open>bloodKetone\<close>, \<open>units\<close> equal to the string \<open>mmol/L\<close>, and a \<open>value\<close>
  that is a number in the inclusive range \<open>[0, 5]\<close> with at most one decimal digit
  (ten times the value is an integer).
\<close>

theorem bloodKetone_instance:
  "\<exists>bk s' v n.
     bloodKetone_generate (common_generate env) utc fmt c = (bk, s')
     \<and> get_prop bk ''type'' = VStr ''bloodKetone''
     \<and> get_prop bk ''units'' = VStr ''mmol/L''
     \<and> get_prop bk ''value'' = VNum v \<and> 0 \<le> v \<and> v \<le> 5 \<and> v * 10 = of_int n"
proof -
  obtain n where n: "fst (bloodKetone_value c) = VNum (of_int n / 10)" "0 \<le> n" "n \<le> 50"
    using bloodKetone_value_range by blast
  let ?bk = "fst (common_generate env bloodKetone_schema utc fmt c)"
  let ?s = "snd (common_generate env bloodKetone_schema utc fmt c)"
  have res: "bloodKetone_generate (common_generate env) utc fmt c = (?bk, ?s)"
    by (simp add: bloodKetone_generate_def)
  have t: "get_prop ?bk ''type'' = VStr ''bloodKetone''"
    and u: "get_prop ?bk ''units'' = VStr ''mmol/L''"
    and v: "get_prop ?bk ''value'' = VNum (of_int n / 10)"
    by (simp_all add: get_prop_def common_generate_own own_keys example_bloodKetone n(1))
  have lo: "(0::rat) \<le> of_int n / 10" using n(2) by simp
  have hi: "(of_int n / 10 :: rat) \<le> 5" using n(3) by simp
  have dg: "(of_int n / 10 :: rat) * 10 = of_int n" by simp
  show ?thesis
    apply (rule exI[of _ ?bk], rule exI[of _ ?s], rule exI[of _ "of_int n / 10"], rule exI[of _ n])
    apply (intro conjI)
    by (fact res t u v lo hi dg)+
qed

theorem bloodKetone_instance_witness:
  "\<exists>bk s' v n.
     bloodKetone_generate (common_generate example_common) 1462349886425 None example_chance
       = (bk, s')
     \<and> get_prop bk ''type'' = VStr ''bloodKetone''
     \<and> get_prop bk ''units'' = VStr ''mmol/L''
     \<and> get_prop bk ''value'' = VNum v \<and> 0 \<le> v \<and> v \<le> 5 \<and> v * 10 = of_int n"
  by (rule bloodKetone_instance)

end
